theory Spec2Isabelle
  imports Main "HOL-Library.Word"
begin

unbundle bit_operations_syntax

section \<open>Data model of package authentication\<close>

text \<open>
  Go's \<open>byte\<close> and \<open>uint16\<close> are machine words. A Go \<open>string\<close> is a sequence of
  bytes, which is what \<open>string\<close> (a list of 8-bit characters) is here.
\<close>

type_synonym byte = "8 word"
type_synonym uint16 = "16 word"

text \<open>
  The error constants of \<open>inmempwdstore.go\<close>, the session error the login handler
  compares against, and \<open>OtherError\<close> for every error value a library or a
  collaborator may return that is none of the package's constants.
\<close>

datatype error =
    InsufficientIterationsError
  | InsufficientEntropyError
  | NoSuchIdentifierError
  | BadPasswordError
  | IncorrectSaltLengthError
  | IncorrectHashLengthError
  | NoSuchSessionValueError
  | OtherError string

text \<open>
  What a Go call that returns \<open>(value, error)\<close> or just \<open>error\<close> can do: return a
  value with a nil error (\<open>Ok\<close>), return a non-nil error (\<open>Err\<close>), or panic.
\<close>

datatype 'a result = Ok 'a | Err error | Panic

definition Pbkdf2KeyLength :: nat where
  "Pbkdf2KeyLength = 64"

definition Pbkdf2MinIterations :: uint16 where
  "Pbkdf2MinIterations = 4096"

record Pbkdf2Hash =
  Hash :: "byte list"
  Salt :: "byte list"
  Iterations :: uint16

text \<open>
  \<open>var hashStruct Pbkdf2Hash\<close>: the zero value of the struct, two arrays of
  \<open>Pbkdf2KeyLength\<close> zero bytes and a zero count.
\<close>

definition zero_Pbkdf2Hash :: Pbkdf2Hash where
  "zero_Pbkdf2Hash =
     \<lparr>Hash = replicate Pbkdf2KeyLength 0, Salt = replicate Pbkdf2KeyLength 0, Iterations = 0\<rparr>"

text \<open>
  The invariant the Go type \<open>[Pbkdf2KeyLength]byte\<close> enforces on both arrays.
\<close>

definition array_ok :: "Pbkdf2Hash \<Rightarrow> bool" where
  "array_ok h = (length (Hash h) = Pbkdf2KeyLength \<and> length (Salt h) = Pbkdf2KeyLength)"

section \<open>Library calls\<close>

text \<open>
  \<open>pbkdf2.Key(password, salt, iter, keyLen, sha256.New)\<close> of golang.org/x/crypto is
  not part of the repository: the functions that call it take it as the parameter
  \<open>Key\<close> of this type.
\<close>

type_synonym kdf = "string \<Rightarrow> byte list \<Rightarrow> nat \<Rightarrow> nat \<Rightarrow> byte list"

text \<open>
  \<open>crypto/rand.Read(b)\<close> fills a prefix of \<open>b\<close> and returns how many bytes it wrote and
  an error. The bytes the operating system delivers for one call and the error it
  reports are an input of the model.
\<close>

type_synonym entropy = "byte list \<times> error option"

definition rand_Read :: "entropy \<Rightarrow> byte list \<Rightarrow> byte list \<times> nat \<times> error option" where
  "rand_Read src b =
     (let n = min (length (fst src)) (length b)
      in (take n (fst src) @ drop n b, n, snd src))"

text \<open>
  \<open>subtle.ConstantTimeCopy(v, x, y)\<close>: panics when the slices differ in length, copies
  \<open>y\<close> into \<open>x\<close> when \<open>v = 1\<close> and leaves \<open>x\<close> as it is when \<open>v = 0\<close>. The result is the
  new content of \<open>x\<close>.
\<close>

definition ConstantTimeCopy :: "int \<Rightarrow> byte list \<Rightarrow> byte list \<Rightarrow> byte list result" where
  "ConstantTimeCopy v x y =
     (if length x \<noteq> length y then Panic else Ok (if v = 1 then y else x))"

text \<open>
  \<open>subtle.ConstantTimeCompare(x, y)\<close>: 1 when the slices have equal contents, 0
  otherwise (also when their lengths differ). The conversion \<open>[]byte(s)\<close> of a string
  is the string's own bytes, so the function is used on byte lists and on strings alike.
\<close>

definition ConstantTimeCompare :: "'a list \<Rightarrow> 'a list \<Rightarrow> int" where
  "ConstantTimeCompare x y = (if length x = length y \<and> x = y then 1 else 0)"

section \<open>The hash primitive\<close>

text \<open>
  \<open>GetPbkdf2Hash\<close>: \<open>Err e\<close> is the return \<open>(nil, e)\<close>, \<open>Ok h\<close> the return
  \<open>(&hashStruct, nil)\<close>.
\<close>

definition GetPbkdf2Hash :: "kdf \<Rightarrow> entropy \<Rightarrow> string \<Rightarrow> uint16 \<Rightarrow> Pbkdf2Hash result" where
  "GetPbkdf2Hash Key src password iterations =
     (if iterations < Pbkdf2MinIterations then Err InsufficientIterationsError
      else
        (case rand_Read src (Salt zero_Pbkdf2Hash) of
           (salt, randCount, err) \<Rightarrow>
             (let hashStruct = zero_Pbkdf2Hash\<lparr>Salt := salt\<rparr>
              in case err of
                   Some e \<Rightarrow> Err e
                 | None \<Rightarrow>
                     if randCount \<noteq> Pbkdf2KeyLength then Err InsufficientEntropyError
                     else
                       (let hashStruct = hashStruct\<lparr>Iterations := iterations\<rparr>
                        in case ConstantTimeCopy 1 (Hash hashStruct)
                                  (Key password (Salt hashStruct)
                                     (unat (Iterations hashStruct)) Pbkdf2KeyLength) of
                             Ok h \<Rightarrow> Ok (hashStruct\<lparr>Hash := h\<rparr>)
                           | Err e \<Rightarrow> Err e
                           | Panic \<Rightarrow> Panic))))"

text \<open>
  \<open>(*Pbkdf2Hash).Check\<close>. The receiver is a pointer: \<open>None\<close> is the nil pointer, whose
  dereference at \<open>hashStruct.Salt[:]\<close> panics. \<open>Ok ()\<close> is the nil error.
\<close>

definition Check :: "kdf \<Rightarrow> Pbkdf2Hash option \<Rightarrow> string \<Rightarrow> unit result" where
  "Check Key hashStruct password =
     (case hashStruct of
        None \<Rightarrow> Panic
      | Some hs \<Rightarrow>
          (let genHash = Key password (Salt hs) (unat (Iterations hs)) Pbkdf2KeyLength
           in if 1 = ConstantTimeCompare (Hash hs) genHash then Ok ()
              else Err BadPasswordError))"

section \<open>The in-memory password store\<close>

text \<open>
  \<open>type InMemPwdStore map[string]*Pbkdf2Hash\<close>: a map whose values are pointers, so an
  entry may hold the nil pointer.
\<close>

type_synonym InMemPwdStore = "string \<rightharpoonup> Pbkdf2Hash option"

definition CheckPassword :: "kdf \<Rightarrow> InMemPwdStore \<Rightarrow> string \<Rightarrow> string \<Rightarrow> unit result" where
  "CheckPassword Key store ident pass =
     (case store ident of
        None \<Rightarrow> Err NoSuchIdentifierError
      | Some hs \<Rightarrow> Check Key hs pass)"

subsection \<open>Serialized form\<close>

text \<open>
  The anonymous struct \<open>t\<close> both JSON methods declare: the fields as they stand in the
  JSON object.
\<close>

record json_Pbkdf2Hash =
  t_Hash :: string
  t_Salt :: string
  t_Iterations :: uint16

text \<open>
  \<open>encoding/json\<close> and \<open>encoding/base64\<close> are libraries: \<open>Decode\<close> stands for
  \<open>json.NewDecoder(bytes.NewReader(input)).Decode(&t)\<close>, \<open>Marshal\<close> for \<open>json.Marshal(t)\<close>,
  \<open>DecodeString\<close> and \<open>EncodeToString\<close> for the methods of \<open>base64.StdEncoding\<close>. A
  library call returns its value (\<open>Inr\<close>) or an error (\<open>Inl\<close>).

  \<open>UnmarshalJSON\<close> writes its receiver only in the last branch: \<open>Ok h\<close> is the nil
  return with the receiver now \<open>h\<close>, \<open>Err e\<close> the return of \<open>e\<close> with the receiver
  untouched.
\<close>

definition UnmarshalJSON ::
  "(string \<Rightarrow> error + json_Pbkdf2Hash) \<Rightarrow> (string \<Rightarrow> error + byte list) \<Rightarrow>
     Pbkdf2Hash \<Rightarrow> string \<Rightarrow> Pbkdf2Hash result" where
  "UnmarshalJSON Decode DecodeString hashStruct input =
     (case Decode input of
        Inl e \<Rightarrow> Err e
      | Inr t \<Rightarrow>
          (case DecodeString (t_Hash t) of
             Inl e \<Rightarrow> Err e
           | Inr h \<Rightarrow>
               if length h \<noteq> Pbkdf2KeyLength then Err IncorrectHashLengthError
               else
                 (case DecodeString (t_Salt t) of
                    Inl e \<Rightarrow> Err e
                  | Inr s \<Rightarrow>
                      if length s \<noteq> Pbkdf2KeyLength then Err IncorrectSaltLengthError
                      else if t_Iterations t < Pbkdf2MinIterations
                        then Err InsufficientIterationsError
                      else
                        (case ConstantTimeCopy 1 (Hash hashStruct) h of
                           Panic \<Rightarrow> Panic
                         | Err e \<Rightarrow> Err e
                         | Ok hash' \<Rightarrow>
                             (case ConstantTimeCopy 1 (Salt hashStruct) s of
                                Panic \<Rightarrow> Panic
                              | Err e \<Rightarrow> Err e
                              | Ok salt' \<Rightarrow>
                                  Ok (hashStruct\<lparr>Hash := hash', Salt := salt',
                                        Iterations := t_Iterations t\<rparr>))))))"

definition MarshalJSON ::
  "(json_Pbkdf2Hash \<Rightarrow> error + string) \<Rightarrow> (byte list \<Rightarrow> string) \<Rightarrow>
     Pbkdf2Hash \<Rightarrow> error + string" where
  "MarshalJSON Marshal EncodeToString hashStruct =
     Marshal \<lparr>t_Hash = EncodeToString (Hash hashStruct),
              t_Salt = EncodeToString (Salt hashStruct),
              t_Iterations = Iterations hashStruct\<rparr>"

section \<open>The login handler\<close>

definition XSRFTokenLength :: nat where
  "XSRFTokenLength = 64"

definition msgInvalidCredentials :: string where
  "msgInvalidCredentials = ''Invalid Credentials''"

text \<open>
  A session holds values of type \<open>interface{}\<close>: the handler stores a bool and a string
  and tells them apart from anything else.
\<close>

datatype session_value = BoolValue bool | StringValue string | OtherValue

text \<open>
  The \<open>Session\<close> interface the handler consumes, over a session state \<open>'s\<close>:
  \<open>GetValue(key)\<close> returns a value or an error, \<open>SetValue(key, value)\<close> returns an error
  or nil and leaves the session in a new state.
\<close>

record 's Session =
  GetValue :: "'s \<Rightarrow> string \<Rightarrow> error + session_value"
  SetValue :: "'s \<Rightarrow> string \<Rightarrow> session_value \<Rightarrow> error option \<times> 's"

text \<open>
  \<open>type LoginHandler struct\<close>. The \<open>PasswordChecker\<close> interface has the one method
  \<open>CheckPassword(id, pass string) error\<close>. \<open>Downstream\<close> is an opaque \<open>http.Handler\<close>:
  handing it the request is the response \<open>Downstream_ServeHTTP\<close> below.
\<close>

record LoginHandler =
  Identifier :: string
  PasswordChecker :: "string \<Rightarrow> string \<Rightarrow> unit result"

text \<open>
  What \<open>request.Context().Value(ctxKeySession)\<close> yields: nil, a \<open>Session\<close>, or a value
  of another type, on which the type assertion \<open>rawsesh.(Session)\<close> panics.
\<close>

datatype 's context_value = NoValue | SessionValue 's | ForeignValue

text \<open>
  The request: its context value, \<open>request.URL.Path\<close>, and what \<open>request.ParseForm()\<close>
  does on it, an error or the map \<open>request.PostForm\<close>.
\<close>

record 's Request =
  context_session :: "'s context_value"
  URL_Path :: string
  ParseForm :: "error + (string \<rightharpoonup> string list)"

text \<open>
  What the surroundings do during one call: the error \<open>log.Warning\<close> and \<open>log.Notice\<close>
  return (the results of the other log calls are discarded by the code), the bytes
  \<open>rand.Read\<close> delivers, and the error of \<open>fmt.Fprintf\<close> on the response writer.
\<close>

record environment =
  log_Warning :: "error option"
  log_Notice :: "error option"
  rand :: entropy
  Fprintf :: "error option"

text \<open>
  The ways one call of \<open>ServeHTTP\<close> ends: the request is handed to \<open>h.Downstream\<close>,
  to \<open>util.InternalServerError\<close> or to \<open>util.Forbidden\<close>, the login page is written,
  writing it failed (and \<open>util.InternalServerError\<close> ran afterwards), or a panic.
\<close>

datatype response =
    Downstream_ServeHTTP
  | InternalServerError
  | Forbidden
  | LoginPage string
  | LoginPage_write_failed
  | Panicked

text \<open>The calls to collaborators, in the order the handler makes them.\<close>

datatype call =
    Call_GetValue string
  | Call_SetValue string session_value
  | Call_ParseForm
  | Call_CheckPassword string string
  | Call_rand_Read

text \<open>
  \<open>hex.EncodeToString\<close>: two characters of \<open>hextable\<close> for every byte, the high
  nibble first.
\<close>

definition hextable :: string where
  "hextable = ''0123456789abcdef''"

definition hex_EncodeToString :: "byte list \<Rightarrow> string" where
  "hex_EncodeToString src =
     concat (map (\<lambda>v. [hextable ! unat (drop_bit 4 v), hextable ! unat (v AND 0x0f)]) src)"

text \<open>The page \<open>fmt.Fprintf\<close> writes; every verb is \<open>%s\<close> on a string.\<close>

definition login_page :: "string \<Rightarrow> string \<Rightarrow> string \<Rightarrow> string \<Rightarrow> string \<Rightarrow> string \<Rightarrow> string" where
  \<open>login_page path errMarkup usernameKey passwordKey xsrfKey nextXSRFToken =
     ''<html><head><title>Pullcord Login</title></head><body>'' @
     ''<form method="POST" action="'' @ path @ ''"><fieldset>'' @
     ''<legend>Pullcord Login</legend>'' @ errMarkup @
     ''<label for="username">Username:</label>'' @
     ''<input type="text" name="'' @ usernameKey @ ''" id="username" />'' @
     ''<label for="password">Password:</label>'' @
     ''<input type="password" name="'' @ passwordKey @ ''"'' @
     ''id="password" /><input type="hidden" name="'' @ xsrfKey @ ''"'' @
     '' value="'' @ nextXSRFToken @ ''" /><input type="submit"'' @
     '' value="Login"/></fieldset></form></body></html>''\<close>

text \<open>
  \<open>ServeHTTP\<close> is one function in the source. It is cut here at its two joints: the
  chain of tests on a submitted form (from \<open>request.ParseForm()\<close> to the last \<open>else\<close>),
  which either returns or falls through with an \<open>errString\<close>, and the rendering of the
  challenge after that chain.
\<close>

datatype 's flow = Return response 's | Render string

definition check_submission ::
  "'s Session \<Rightarrow> environment \<Rightarrow> LoginHandler \<Rightarrow> 's Request \<Rightarrow> 's \<Rightarrow> session_value \<Rightarrow>
     's flow \<times> call list" where
  "check_submission S env h request sesh xsrfStored =
     (let authSeshKey = ''authenticated-'' @ Identifier h;
          xsrfKey = ''xsrf-'' @ Identifier h;
          usernameKey = ''username-'' @ Identifier h;
          passwordKey = ''password-'' @ Identifier h
      in case ParseForm request of
           Inl e \<Rightarrow>
             (case log_Warning env of
                Some e' \<Rightarrow> (Return Forbidden sesh, [Call_ParseForm])
              | None \<Rightarrow> (Render ''Bad request'', [Call_ParseForm]))
         | Inr PostForm \<Rightarrow>
             (case PostForm xsrfKey of
                None \<Rightarrow> (Render msgInvalidCredentials, [Call_ParseForm])
              | Some xsrfRcvd \<Rightarrow>
                  if length xsrfRcvd \<noteq> 1 then (Render msgInvalidCredentials, [Call_ParseForm])
                  else
                    (case xsrfStored of
                       StringValue stored \<Rightarrow>
                         if 1 \<noteq> ConstantTimeCompare stored (xsrfRcvd ! 0)
                         then (Render msgInvalidCredentials, [Call_ParseForm])
                         else
                           (case PostForm usernameKey of
                              None \<Rightarrow> (Render msgInvalidCredentials, [Call_ParseForm])
                            | Some uVals \<Rightarrow>
                                (case PostForm passwordKey of
                                   None \<Rightarrow> (Render msgInvalidCredentials, [Call_ParseForm])
                                 | Some pVals \<Rightarrow>
                                     if length uVals \<noteq> 1 \<or> length pVals \<noteq> 1
                                     then (Render ''Bad request'', [Call_ParseForm])
                                     else
                                       (let checked =
                                              [Call_ParseForm,
                                               Call_CheckPassword (uVals ! 0) (pVals ! 0)];
                                            authd =
                                              checked @ [Call_SetValue authSeshKey (BoolValue True)]
                                        in case PasswordChecker h (uVals ! 0) (pVals ! 0) of
                                             Err err \<Rightarrow>
                                               if err = NoSuchIdentifierError
                                               then (Render msgInvalidCredentials, checked)
                                               else if err = BadPasswordError
                                               then (Render msgInvalidCredentials, checked)
                                               else (Return InternalServerError sesh, checked)
                                           | Panic \<Rightarrow> (Return Panicked sesh, checked)
                                           | Ok u \<Rightarrow>
                                               (case SetValue S sesh authSeshKey (BoolValue True) of
                                                  (Some err, sesh') \<Rightarrow>
                                                    (Return InternalServerError sesh', authd)
                                                | (None, sesh') \<Rightarrow>
                                                    (case log_Notice env of
                                                       Some err \<Rightarrow>
                                                         (Return InternalServerError sesh', authd)
                                                     | None \<Rightarrow>
                                                         (Return Downstream_ServeHTTP sesh', authd))))))
                     | BoolValue b \<Rightarrow> (Return Panicked sesh, [Call_ParseForm])
                     | OtherValue \<Rightarrow> (Return Panicked sesh, [Call_ParseForm]))))"

definition render_challenge ::
  "'s Session \<Rightarrow> environment \<Rightarrow> LoginHandler \<Rightarrow> 's Request \<Rightarrow> 's \<Rightarrow> string \<Rightarrow>
     response \<times> 's \<times> call list" where
  \<open>render_challenge S env h request sesh errString =
     (let xsrfKey = ''xsrf-'' @ Identifier h;
          usernameKey = ''username-'' @ Identifier h;
          passwordKey = ''password-'' @ Identifier h
      in case rand_Read (rand env) (replicate XSRFTokenLength 0) of
           (rawXSRFToken, rsize, err) \<Rightarrow>
             if err \<noteq> None \<or> rsize \<noteq> XSRFTokenLength
             then (InternalServerError, sesh, [Call_rand_Read])
             else
               (let nextXSRFToken = hex_EncodeToString rawXSRFToken;
                    calls = [Call_rand_Read, Call_SetValue xsrfKey (StringValue nextXSRFToken)]
                in case SetValue S sesh xsrfKey (StringValue nextXSRFToken) of
                     (Some err', sesh') \<Rightarrow> (InternalServerError, sesh', calls)
                   | (None, sesh') \<Rightarrow>
                       (let errMarkup =
                              (if errString \<noteq> []
                               then ''<label class="error">'' @ errString @ ''</label><br />''
                               else [])
                        in case Fprintf env of
                             None \<Rightarrow>
                               (LoginPage (login_page (URL_Path request) errMarkup usernameKey
                                   passwordKey xsrfKey nextXSRFToken), sesh', calls)
                           | Some err' \<Rightarrow> (LoginPage_write_failed, sesh', calls))))\<close>

text \<open>The body of \<open>ServeHTTP\<close> once the session is at hand.\<close>

definition ServeHTTP_session ::
  "'s Session \<Rightarrow> environment \<Rightarrow> LoginHandler \<Rightarrow> 's Request \<Rightarrow> 's \<Rightarrow>
     response \<times> 's \<times> call list" where
  "ServeHTTP_session S env h request sesh =
     (let authSeshKey = ''authenticated-'' @ Identifier h;
          xsrfKey = ''xsrf-'' @ Identifier h
      in case GetValue S sesh authSeshKey of
           Inr authd \<Rightarrow>
             if authd = BoolValue True
             then (Downstream_ServeHTTP, sesh, [Call_GetValue authSeshKey])
             else (InternalServerError, sesh, [Call_GetValue authSeshKey])
         | Inl err \<Rightarrow>
             if err \<noteq> NoSuchSessionValueError
             then (InternalServerError, sesh, [Call_GetValue authSeshKey])
             else
               (let calls = [Call_GetValue authSeshKey, Call_GetValue xsrfKey]
                in case GetValue S sesh xsrfKey of
                     Inl err \<Rightarrow>
                       if err \<noteq> NoSuchSessionValueError
                       then (InternalServerError, sesh, calls)
                       else
                         (case render_challenge S env h request sesh [] of
                            (r, sesh', cs) \<Rightarrow> (r, sesh', calls @ cs))
                   | Inr xsrfStored \<Rightarrow>
                       (case check_submission S env h request sesh xsrfStored of
                          (Return r sesh', cs) \<Rightarrow> (r, sesh', calls @ cs)
                        | (Render errString, cs) \<Rightarrow>
                            (case render_challenge S env h request sesh errString of
                               (r, sesh', cs') \<Rightarrow> (r, sesh', calls @ cs @ cs')))))"

text \<open>
  \<open>(*LoginHandler).ServeHTTP\<close>. The result is the response, the context value with the
  session in its new state, and the calls made.
\<close>

definition ServeHTTP ::
  "'s Session \<Rightarrow> environment \<Rightarrow> LoginHandler \<Rightarrow> 's Request \<Rightarrow>
     response \<times> 's context_value \<times> call list" where
  "ServeHTTP S env h request =
     (case context_session request of
        NoValue \<Rightarrow> (InternalServerError, NoValue, [])
      | ForeignValue \<Rightarrow> (Panicked, ForeignValue, [])
      | SessionValue sesh \<Rightarrow>
          (case ServeHTTP_session S env h request sesh of
             (r, sesh', cs) \<Rightarrow> (r, SessionValue sesh', cs)))"

text \<open>
  A session kept in memory, for running the handler: a map from keys to values whose
  reads fail with \<open>NoSuchSessionValueError\<close> on a missing key and whose writes succeed.
\<close>

definition mem_session :: "(string \<rightharpoonup> session_value) Session" where
  "mem_session =
     \<lparr>GetValue = (\<lambda>s key. case s key of None \<Rightarrow> Inl NoSuchSessionValueError | Some v \<Rightarrow> Inr v),
      SetValue = (\<lambda>s key v. (None, s(key \<mapsto> v)))\<rparr>"

section \<open>Generation below the iteration floor\<close>

text \<open>
  C5. For every password and every iteration count strictly below 4096,
  \<open>GetPbkdf2Hash\<close> fails with \<open>InsufficientIterationsError\<close> and returns no record,
  whatever the key derivation function and the entropy source are.
\<close>

theorem GetPbkdf2Hash_insufficient_iterations:
  "iterations < 4096 \<Longrightarrow>
     GetPbkdf2Hash Key src password iterations = Err InsufficientIterationsError"
  by (simp add: GetPbkdf2Hash_def Pbkdf2MinIterations_def)

theorem GetPbkdf2Hash_insufficient_iterations_witness:
  "(4095 :: uint16) < 4096 \<and>
   GetPbkdf2Hash (\<lambda>p s i n. replicate n 0) (replicate 64 7, None) ''secret'' 4095
     = Err InsufficientIterationsError"
  using GetPbkdf2Hash_insufficient_iterations
          [of 4095 "\<lambda>p s i n. replicate n 0" "(replicate 64 7, None)" "''secret''"]
  by simp

end
